theory Spec2Isabelle
  imports Main
begin

section \<open>Text\<close>

text \<open>
  Python strings are sequences of Unicode code points. A \<^typ>\<open>char\<close> stands for the code
  point of the same number, so the development covers text over the code points 0..255;
  the character classes below are the ones Python's \<^verbatim>\<open>re\<close> and \<^verbatim>\<open>str\<close> use on that range.
\<close>

definition code_point :: "char \<Rightarrow> nat" where
  "code_point c = of_char c"

text \<open>\<^verbatim>\<open>\s\<close> and \<^verbatim>\<open>str.isspace\<close>.\<close>

definition is_space :: "char \<Rightarrow> bool" where
  "is_space c =
     (let n = code_point c
      in (9 \<le> n \<and> n \<le> 13) \<or> (28 \<le> n \<and> n \<le> 32) \<or> n = 133 \<or> n = 160)"

text \<open>\<^verbatim>\<open>\d\<close>.\<close>

definition is_digit :: "char \<Rightarrow> bool" where
  "is_digit c = (let n = code_point c in 48 \<le> n \<and> n \<le> 57)"

text \<open>\<^verbatim>\<open>\w\<close>: alphanumeric or underscore.\<close>

definition is_word :: "char \<Rightarrow> bool" where
  "is_word c =
     (let n = code_point c
      in (48 \<le> n \<and> n \<le> 57) \<or> (65 \<le> n \<and> n \<le> 90) \<or> n = 95 \<or> (97 \<le> n \<and> n \<le> 122) \<or>
         n = 170 \<or> n = 178 \<or> n = 179 \<or> n = 181 \<or> n = 185 \<or> n = 186 \<or>
         (188 \<le> n \<and> n \<le> 190) \<or> (192 \<le> n \<and> n \<le> 214) \<or> (216 \<le> n \<and> n \<le> 246) \<or>
         248 \<le> n)"

text \<open>\<^verbatim>\<open>str.strip()\<close>: leading and trailing whitespace removed.\<close>

definition strip :: "string \<Rightarrow> string" where
  "strip s = rev (dropWhile is_space (rev (dropWhile is_space s)))"

text \<open>
  \<^verbatim>\<open>str(n)\<close> for an integer: decimal digits, with a minus sign when negative. The digits
  are computed on \<^typ>\<open>int\<close>, whose numerals are binary.
\<close>

definition digit_char :: "int \<Rightarrow> char" where
  "digit_char d = char_of (48 + d)"

function str_digits :: "int \<Rightarrow> string" where
  "str_digits n =
     (if n < 10 then [digit_char n] else str_digits (n div 10) @ [digit_char (n mod 10)])"
  by pat_completeness auto
termination
  by (relation "measure nat") auto

definition str_int :: "int \<Rightarrow> string" where
  "str_int i = (if i < 0 then CHR ''-'' # str_digits (- i) else str_digits i)"


section \<open>Regular expressions\<close>

text \<open>
  The programs work by \<^verbatim>\<open>re.sub\<close> and \<^verbatim>\<open>re.search\<close>. The patterns they use are built from
  literals, character classes, greedy repetition, alternation, capturing groups, the word
  boundary and lookahead; \<open>rx\<close> is that syntax and \<open>ms\<close> its backtracking semantics: the
  list of all ways the pattern can match at the current position, in the order in which
  the backtracking matcher tries them, so that the head of the list is the match Python
  reports.
\<close>

datatype cclass = Word | Space | Digit | OneOf string | NoneOf string

fun in_class :: "cclass \<Rightarrow> char \<Rightarrow> bool" where
  "in_class Word c = is_word c"
| "in_class Space c = is_space c"
| "in_class Digit c = is_digit c"
| "in_class (OneOf cs) c = (c \<in> set cs)"
| "in_class (NoneOf cs) c = (c \<notin> set cs)"

datatype rx =
    Lit string
  | Cls cclass
  | Seq rx rx
  | Alt rx rx
  | Star rx
  | Grp nat rx
  | WordB
  | Ahead rx
  | NotAhead rx

text \<open>
  A matcher state: the character before the current position (for \<^verbatim>\<open>\b\<close>), the text from
  the current position on, and the groups captured so far (latest first).
\<close>

type_synonym mstate = "char option \<times> string \<times> (nat \<times> string) list"

fun ms :: "rx \<Rightarrow> mstate \<Rightarrow> mstate list" where
  "ms (Lit w) (p, s, g) =
     (if take (length w) s = w
      then [(if w = [] then p else Some (last w), drop (length w) s, g)] else [])"
| "ms (Cls k) (p, s, g) =
     (case s of [] \<Rightarrow> [] | x # xs \<Rightarrow> if in_class k x then [(Some x, xs, g)] else [])"
| "ms (Seq a b) st = concat (map (ms b) (ms a st))"
| "ms (Alt a b) st = ms a st @ ms b st"
| "ms (Star r) st =
     concat (map (ms (Star r))
       (filter (\<lambda>st'. length (fst (snd st')) < length (fst (snd st))) (ms r st))) @ [st]"
| "ms (Grp n r) st =
     map (\<lambda>(p', s', g').
            (p', s', (n, take (length (fst (snd st)) - length s') (fst (snd st))) # g'))
       (ms r st)"
| "ms WordB (p, s, g) =
     (if (case p of None \<Rightarrow> False | Some c \<Rightarrow> is_word c) \<noteq>
         (case s of [] \<Rightarrow> False | x # _ \<Rightarrow> is_word x)
      then [(p, s, g)] else [])"
| "ms (Ahead r) st = (case ms r st of [] \<Rightarrow> [] | _ # _ \<Rightarrow> [st])"
| "ms (NotAhead r) st = (case ms r st of [] \<Rightarrow> [st] | _ # _ \<Rightarrow> [])"

text \<open>\<^verbatim>\<open>r+\<close> is \<^verbatim>\<open>rr*\<close>; \<open>cat\<close> is a sequence of patterns.\<close>

definition Plus :: "rx \<Rightarrow> rx" where
  "Plus r = Seq r (Star r)"

fun cat :: "rx list \<Rightarrow> rx" where
  "cat [] = Lit []"
| "cat [r] = r"
| "cat (r # rs) = Seq r (cat rs)"

text \<open>
  A match object: the matched text (group 0) and the captured groups.
\<close>

type_synonym rmatch = "string \<times> (nat \<times> string) list"

definition group :: "rmatch \<Rightarrow> nat \<Rightarrow> string" where
  "group m n = (if n = 0 then fst m else case map_of (snd m) n of Some t \<Rightarrow> t | None \<Rightarrow> [])"

text \<open>The match at the current position, if any, with the number of characters it consumes.\<close>

definition rx_match :: "rx \<Rightarrow> char option \<Rightarrow> string \<Rightarrow> (nat \<times> rmatch) option" where
  "rx_match r p s =
     (case ms r (p, s, []) of
        [] \<Rightarrow> None
      | (p', s', g) # _ \<Rightarrow> Some (length s - length s', (take (length s - length s') s, g)))"

text \<open>
  \<^verbatim>\<open>re.sub(pattern, repl, text)\<close> with a callable \<open>repl\<close>: the text is scanned from the left,
  each match is replaced by what the callback returns and the scan goes on after the match.
  The callback may update a state (the \<^verbatim>\<open>stats\<close> dictionary of the allocation rewriter).
  \<open>skip\<close> counts the characters of the current match still to be passed over.
\<close>

fun sub_scan ::
  "rx \<Rightarrow> (rmatch \<Rightarrow> 'st \<Rightarrow> string \<times> 'st) \<Rightarrow> nat \<Rightarrow> char option \<Rightarrow> string \<Rightarrow> 'st \<Rightarrow> string \<times> 'st"
where
  "sub_scan r f skip p [] st =
     (if 0 < skip then ([], st)
      else case rx_match r p [] of None \<Rightarrow> ([], st) | Some (n, m) \<Rightarrow> f m st)"
| "sub_scan r f skip p (c # cs) st =
     (if 0 < skip then sub_scan r f (skip - 1) (Some c) cs st
      else case rx_match r p (c # cs) of
        None \<Rightarrow> (let (out, st') = sub_scan r f 0 (Some c) cs st in (c # out, st'))
      | Some (n, m) \<Rightarrow>
          (let (rep, st1) = f m st
           in if n = 0
              then (let (out, st2) = sub_scan r f 0 (Some c) cs st1 in (rep @ c # out, st2))
              else (let (out, st2) = sub_scan r f (n - 1) (Some c) cs st1 in (rep @ out, st2))))"

definition re_sub_st ::
  "rx \<Rightarrow> (rmatch \<Rightarrow> 'st \<Rightarrow> string \<times> 'st) \<Rightarrow> string \<Rightarrow> 'st \<Rightarrow> string \<times> 'st" where
  "re_sub_st r f s st = sub_scan r f 0 None s st"

definition re_sub :: "rx \<Rightarrow> (rmatch \<Rightarrow> string) \<Rightarrow> string \<Rightarrow> string" where
  "re_sub r f s = fst (re_sub_st r (\<lambda>m u. (f m, u)) s ())"

text \<open>\<^verbatim>\<open>re.search\<close>: the leftmost match, as (start, end, match object).\<close>

fun search_from :: "rx \<Rightarrow> char option \<Rightarrow> nat \<Rightarrow> string \<Rightarrow> (nat \<times> nat \<times> rmatch) option" where
  "search_from r p i [] =
     (case rx_match r p [] of None \<Rightarrow> None | Some (n, m) \<Rightarrow> Some (i, i + n, m))"
| "search_from r p i (c # cs) =
     (case rx_match r p (c # cs) of
        None \<Rightarrow> search_from r (Some c) (Suc i) cs
      | Some (n, m) \<Rightarrow> Some (i, i + n, m))"

definition re_search :: "rx \<Rightarrow> string \<Rightarrow> (nat \<times> nat \<times> rmatch) option" where
  "re_search r s = search_from r None 0 s"


section \<open>The allocation rewriter (replace\_calloc.py)\<close>

subsection \<open>simplify\_expression\<close>

text \<open>
  The four patterns of \<^verbatim>\<open>simplify_expression\<close>:
  \<^verbatim>\<open>\(([^)]+)\s*-\s*\(0\)\)\<close>, \<^verbatim>\<open>\(([^)]+)\s*\+\s*\(0\)\)\<close>, \<^verbatim>\<open>\(0\)\<close> and
  \<^verbatim>\<open>\((\w+)\)\s*\*\s*\((\w+)\)\<close>.
\<close>

definition sub_zero_rx :: rx where
  "sub_zero_rx =
     cat [Lit ''('', Grp 1 (Plus (Cls (NoneOf '')''))), Star (Cls Space), Lit ''-'',
          Star (Cls Space), Lit ''(0))'']"

definition add_zero_rx :: rx where
  "add_zero_rx =
     cat [Lit ''('', Grp 1 (Plus (Cls (NoneOf '')''))), Star (Cls Space), Lit ''+'',
          Star (Cls Space), Lit ''(0))'']"

definition paren_zero_rx :: rx where
  "paren_zero_rx = Lit ''(0)''"

definition paren_mult_rx :: rx where
  "paren_mult_rx =
     cat [Lit ''('', Grp 1 (Plus (Cls Word)), Lit '')'', Star (Cls Space), Lit ''*'',
          Star (Cls Space), Lit ''('', Grp 2 (Plus (Cls Word)), Lit '')'']"

definition simplify_expression :: "string \<Rightarrow> string" where
  "simplify_expression expr =
     (let expr = re_sub sub_zero_rx (\<lambda>m. group m 1) expr;
          expr = re_sub add_zero_rx (\<lambda>m. group m 1) expr;
          expr = re_sub paren_zero_rx (\<lambda>m. ''0'') expr;
          expr = re_sub paren_mult_rx (\<lambda>m. group m 1 @ '' * '' @ group m 2) expr
      in strip expr)"

subsection \<open>transform\_calloc\_to\_vla\<close>

record stats =
  callocs_replaced :: nat
  frees_removed :: nat
  warnings :: "string list"
  simplifications :: nat

definition initial_stats :: stats where
  "initial_stats = \<lparr>callocs_replaced = 0, frees_removed = 0, warnings = [], simplifications = 0\<rparr>"

text \<open>\<^verbatim>\<open>float \*(\w+) = calloc\(([^,]+), sizeof\(float\)\);\<close>\<close>

definition calloc_rx :: rx where
  "calloc_rx =
     cat [Lit ''float *'', Grp 1 (Plus (Cls Word)), Lit '' = calloc('',
          Grp 2 (Plus (Cls (NoneOf '',''))), Lit '', sizeof(float));'']"

definition replace_calloc :: "rmatch \<Rightarrow> stats \<Rightarrow> string \<times> stats" where
  "replace_calloc m st =
     (let var_name = group m 1;
          size_expr = group m 2;
          st = st\<lparr>callocs_replaced := callocs_replaced st + 1\<rparr>;
          simplified = simplify_expression size_expr;
          st = (if simplified \<noteq> size_expr
                then st\<lparr>simplifications := simplifications st + 1\<rparr> else st);
          st = (if CHR ''('' \<in> set simplified \<and> 1 < count_list simplified CHR ''(''
                then st\<lparr>warnings := warnings st @
                       [''Complex size expression for '' @ var_name @ '': '' @ simplified]\<rparr>
                else st)
      in (''float '' @ var_name @ ''['' @ simplified @ ''];'', st))"

text \<open>\<^verbatim>\<open>free\((\w+)\);\<close>\<close>

definition free_rx :: rx where
  "free_rx = cat [Lit ''free('', Grp 1 (Plus (Cls Word)), Lit '');'']"

definition replace_free :: "rmatch \<Rightarrow> stats \<Rightarrow> string \<times> stats" where
  "replace_free m st =
     (let var_name = group m 1;
          st = st\<lparr>frees_removed := frees_removed st + 1\<rparr>
      in (''// '' @ var_name @ '' auto-freed (VLA)'', st))"

text \<open>\<^verbatim>\<open>float (\w+)\[([^\]]+)\];\<close>\<close>

definition vla_rx :: rx where
  "vla_rx =
     cat [Lit ''float '', Grp 1 (Plus (Cls Word)), Lit ''['',
          Grp 2 (Plus (Cls (NoneOf '']''))), Lit ''];'']"

definition simplify_vla :: "rmatch \<Rightarrow> stats \<Rightarrow> string \<times> stats" where
  "simplify_vla m st =
     (let var_name = group m 1;
          size_expr = group m 2;
          simplified = simplify_expression size_expr;
          st = (if simplified \<noteq> size_expr
                then st\<lparr>simplifications := simplifications st + 1\<rparr> else st)
      in (''float '' @ var_name @ ''['' @ simplified @ ''];'', st))"

text \<open>
  The patterns of the final whole-file pass that \<^verbatim>\<open>simplify_expression\<close> does not have:
  \<^verbatim>\<open>(\w+)\s*-\s*0(?!\w)\<close>, \<^verbatim>\<open>(\w+)\s*\+\s*0(?!\w)\<close> and \<^verbatim>\<open>\((\w+)\)(?=\s*[+\-*/\)])\<close>.
\<close>

definition minus_zero_rx :: rx where
  "minus_zero_rx =
     cat [Grp 1 (Plus (Cls Word)), Star (Cls Space), Lit ''-'', Star (Cls Space), Lit ''0'',
          NotAhead (Cls Word)]"

definition plus_zero_rx :: rx where
  "plus_zero_rx =
     cat [Grp 1 (Plus (Cls Word)), Star (Cls Space), Lit ''+'', Star (Cls Space), Lit ''0'',
          NotAhead (Cls Word)]"

definition paren_word_rx :: rx where
  "paren_word_rx =
     cat [Lit ''('', Grp 1 (Plus (Cls Word)), Lit '')'',
          Ahead (Seq (Star (Cls Space)) (Cls (OneOf ''+-*/)'')))]"

definition simplify_pass :: "string \<Rightarrow> string" where
  "simplify_pass code =
     (let code = re_sub sub_zero_rx (\<lambda>m. group m 1) code;
          code = re_sub add_zero_rx (\<lambda>m. group m 1) code;
          code = re_sub minus_zero_rx (\<lambda>m. group m 1) code;
          code = re_sub plus_zero_rx (\<lambda>m. group m 1) code;
          code = re_sub paren_zero_rx (\<lambda>m. ''0'') code;
          code = re_sub paren_word_rx (\<lambda>m. group m 1) code
      in code)"

text \<open>
  The loop \<^verbatim>\<open>while prev != code and iterations < 5\<close>; \<open>prev\<close> starts as \<^verbatim>\<open>None\<close>.
\<close>

function simplify_all_loop :: "string option \<Rightarrow> nat \<Rightarrow> string \<Rightarrow> string" where
  "simplify_all_loop prev iterations code =
     (if prev \<noteq> Some code \<and> iterations < 5
      then simplify_all_loop (Some code) (iterations + 1) (simplify_pass code)
      else code)"
  by pat_completeness auto
termination
  by (relation "measure (\<lambda>(prev, iterations, code). 5 - iterations)") auto

definition simplify_all_expressions :: "string \<Rightarrow> string" where
  "simplify_all_expressions code = simplify_all_loop None 0 code"

definition transform_calloc_to_vla :: "string \<Rightarrow> string \<times> stats" where
  "transform_calloc_to_vla c_code =
     (let (transformed, st) = re_sub_st calloc_rx replace_calloc c_code initial_stats;
          (transformed, st) = re_sub_st free_rx replace_free transformed st;
          (transformed, st) = re_sub_st vla_rx simplify_vla transformed st;
          transformed = simplify_all_expressions transformed
      in (transformed, st))"


section \<open>The wrapper generator (wrap.py)\<close>

subsection \<open>Outcomes\<close>

text \<open>
  A Python computation returns a value or raises an exception. \<open>Unmodelled\<close> marks an
  input on which the development does not say what the interpreter does (see \<open>py_eval\<close>).
\<close>

datatype exn =
  SyntaxError | NameError | ZeroDivisionError | ValueError | OverflowError | TypeError

datatype 'a outcome = Returns 'a | Raises exn | Unmodelled

subsection \<open>ArrayLoader\<close>

text \<open>
  What \<^verbatim>\<open>json.load\<close> returns: \<^verbatim>\<open>None\<close>, a \<^verbatim>\<open>bool\<close>, an \<^verbatim>\<open>int\<close>, a \<^verbatim>\<open>float\<close>, a \<^verbatim>\<open>str\<close>, a
  \<^verbatim>\<open>list\<close> or a \<^verbatim>\<open>dict\<close>. The type \<open>'f\<close> stands for Python's floats.
\<close>

datatype 'f json =
    JNull
  | JBool bool
  | JInt int
  | JFloat 'f
  | JStr string
  | JList "'f json list"
  | JDict "(string \<times> 'f json) list"

fun flatten :: "'f json \<Rightarrow> 'f json list" where
  "flatten (JList items) = concat (map flatten items)"
| "flatten JNull = [JNull]"
| "flatten (JBool b) = [JBool b]"
| "flatten (JInt i) = [JInt i]"
| "flatten (JFloat x) = [JFloat x]"
| "flatten (JStr t) = [JStr t]"
| "flatten (JDict kvs) = [JDict kvs]"

text \<open>
  \<^verbatim>\<open>isinstance(x, (int, float))\<close>. Python's \<^verbatim>\<open>bool\<close> is a subclass of \<^verbatim>\<open>int\<close>, so the test
  holds for \<^verbatim>\<open>True\<close> and \<^verbatim>\<open>False\<close> as well.
\<close>

fun isinstance_int_float :: "'f json \<Rightarrow> bool" where
  "isinstance_int_float (JInt i) = True"
| "isinstance_int_float (JFloat x) = True"
| "isinstance_int_float (JBool b) = True"
| "isinstance_int_float JNull = False"
| "isinstance_int_float (JStr t) = False"
| "isinstance_int_float (JList items) = False"
| "isinstance_int_float (JDict kvs) = False"

text \<open>
  \<^verbatim>\<open>float(x)\<close> on the values that pass the test. The conversion of an integer is a
  parameter; it raises \<^verbatim>\<open>OverflowError\<close> (\<open>None\<close>) on an integer too large for a float.
\<close>

fun py_float :: "(int \<Rightarrow> 'f option) \<Rightarrow> 'f json \<Rightarrow> exn + 'f" where
  "py_float to_float (JFloat x) = Inr x"
| "py_float to_float (JInt i) =
     (case to_float i of None \<Rightarrow> Inl OverflowError | Some x \<Rightarrow> Inr x)"
| "py_float to_float (JBool b) =
     (case to_float (if b then 1 else 0) of None \<Rightarrow> Inl OverflowError | Some x \<Rightarrow> Inr x)"
| "py_float to_float v = Inl TypeError"

fun float_all :: "(int \<Rightarrow> 'f option) \<Rightarrow> 'f json list \<Rightarrow> exn + 'f list" where
  "float_all to_float [] = Inr []"
| "float_all to_float (v # vs) =
     (case py_float to_float v of
        Inl e \<Rightarrow> Inl e
      | Inr x \<Rightarrow> (case float_all to_float vs of Inl e \<Rightarrow> Inl e | Inr xs \<Rightarrow> Inr (x # xs)))"

text \<open>\<open>data\<close> is what \<^verbatim>\<open>json.load\<close> read from the file.\<close>

definition load_json_array :: "(int \<Rightarrow> 'f option) \<Rightarrow> 'f json \<Rightarrow> exn + 'f list" where
  "load_json_array to_float data =
     (let flat = flatten data
      in if \<not> list_all isinstance_int_float flat then Inl ValueError
         else float_all to_float flat)"

subsection \<open>Python's eval on arithmetic text\<close>

text \<open>
  \<^verbatim>\<open>ConstantFolder\<close> evaluates text with \<^verbatim>\<open>eval(expr, {"__builtins__": {}}, {})\<close>, that is,
  as an arbitrary Python expression. \<open>py_eval\<close> gives the interpreter's answer on a
  fragment of the expression language: text of at most 100 characters made of spaces,
  tabs, decimal integer literals, identifiers, the operators \<^verbatim>\<open>+ - * / // %\<close> and
  parentheses. On that fragment it returns the value, or says which exception is raised;
  on all other text it answers \<open>Unmodelled\<close>.
\<close>

datatype tok =
  TNum int | TName string | TPlus | TMinus | TStar | TSlash | TDSlash | TPercent | TLPar | TRPar

definition is_ident_start :: "char \<Rightarrow> bool" where
  "is_ident_start c =
     (let n = code_point c in (65 \<le> n \<and> n \<le> 90) \<or> n = 95 \<or> (97 \<le> n \<and> n \<le> 122))"

definition is_ident_char :: "char \<Rightarrow> bool" where
  "is_ident_char c = (is_ident_start c \<or> is_digit c)"

definition in_alphabet :: "char \<Rightarrow> bool" where
  "in_alphabet c = (is_ident_char c \<or> c \<in> set '' +-*/%()'' \<or> code_point c = 9)"

text \<open>
  Names that are not looked up in the (empty) namespaces: the keywords, among them the
  constants \<^verbatim>\<open>True\<close>, \<^verbatim>\<open>False\<close> and \<^verbatim>\<open>None\<close>; \<^verbatim>\<open>__debug__\<close>; and \<^verbatim>\<open>__builtins__\<close>, which
  the globals passed to \<^verbatim>\<open>eval\<close> define.
\<close>

definition reserved_names :: "string list" where
  "reserved_names =
     [''False'', ''None'', ''True'', ''and'', ''as'', ''assert'', ''async'', ''await'', ''break'',
      ''class'', ''continue'', ''def'', ''del'', ''elif'', ''else'', ''except'', ''finally'', ''for'',
      ''from'', ''global'', ''if'', ''import'', ''in'', ''is'', ''lambda'', ''nonlocal'', ''not'',
      ''or'', ''pass'', ''raise'', ''return'', ''try'', ''while'', ''with'', ''yield'',
      ''__debug__'', ''__builtins__'']"

definition int_of_digits :: "string \<Rightarrow> int" where
  "int_of_digits ds = foldl (\<lambda>a c. 10 * a + (int (code_point c) - 48)) 0 ds"

definition prepend_tok :: "tok \<Rightarrow> tok list outcome \<Rightarrow> tok list outcome" where
  "prepend_tok t r =
     (case r of Returns ts \<Rightarrow> Returns (t # ts) | Raises e \<Rightarrow> Raises e | Unmodelled \<Rightarrow> Unmodelled)"

text \<open>
  The tokenizer. A literal with a leading zero that is not zero is a syntax error; a
  literal that runs into a letter or an underscore (\<^verbatim>\<open>0x10\<close>, \<^verbatim>\<open>1e3\<close>, \<^verbatim>\<open>1_000\<close>), a reserved
  name and \<^verbatim>\<open>**\<close> are outside the fragment.
\<close>

function lex :: "string \<Rightarrow> tok list outcome" where
  "lex [] = Returns []"
| "lex (c # cs) =
     (if c = CHR '' '' \<or> code_point c = 9 then lex cs
      else if is_digit c then
        (let ds = c # takeWhile is_digit cs; rest = dropWhile is_digit cs
         in if (case rest of [] \<Rightarrow> False | x # _ \<Rightarrow> is_ident_start x) then Unmodelled
            else if c = CHR ''0'' \<and> (\<exists>d \<in> set ds. d \<noteq> CHR ''0'') then Raises SyntaxError
            else prepend_tok (TNum (int_of_digits ds)) (lex rest))
      else if is_ident_start c then
        (let name = c # takeWhile is_ident_char cs; rest = dropWhile is_ident_char cs
         in if name \<in> set reserved_names then Unmodelled
            else prepend_tok (TName name) (lex rest))
      else if c = CHR ''+'' then prepend_tok TPlus (lex cs)
      else if c = CHR ''-'' then prepend_tok TMinus (lex cs)
      else if c = CHR ''%'' then prepend_tok TPercent (lex cs)
      else if c = CHR ''('' then prepend_tok TLPar (lex cs)
      else if c = CHR '')'' then prepend_tok TRPar (lex cs)
      else if c = CHR ''*'' then
        (case cs of
           [] \<Rightarrow> prepend_tok TStar (lex cs)
         | x # _ \<Rightarrow> if x = CHR ''*'' then Unmodelled else prepend_tok TStar (lex cs))
      else if c = CHR ''/'' then
        (case cs of
           [] \<Rightarrow> prepend_tok TSlash (lex cs)
         | x # xs \<Rightarrow> if x = CHR ''/'' then prepend_tok TDSlash (lex xs)
                     else prepend_tok TSlash (lex cs))
      else Unmodelled)"
  by pat_completeness auto
termination
  by (relation "measure length") (auto simp: less_Suc_eq_le length_dropWhile_le)

datatype binop = Add | Sub | Mult | Div | FloorDiv | Mod

datatype pyexpr = Num int | Name string | UAdd pyexpr | USub pyexpr | BinOp pyexpr binop pyexpr

text \<open>
  The grammar of the fragment, as in Python's:
  \<^verbatim>\<open>expr: term (('+'|'-') term)*\<close>, \<^verbatim>\<open>term: factor (('*'|'/'|'//'|'%') factor)*\<close>,
  \<^verbatim>\<open>factor: ('+'|'-') factor | atom\<close>, \<^verbatim>\<open>atom: NUMBER | NAME | '(' expr ')'\<close>.
  \<open>parse n g ts\<close> reads the nonterminal \<open>g\<close> from the front of \<open>ts\<close>; \<open>TermRest e\<close> and
  \<open>ExprRest e\<close> are the repetitions after a first operand \<open>e\<close>. The number \<open>n\<close> bounds
  the depth of the recursion, and \<open>Exhausted\<close> says that the bound was reached.
\<close>

datatype presult = Parsed pyexpr "tok list" | Reject | Exhausted

datatype goal = Atom | Factor | TermRest pyexpr | Term | ExprRest pyexpr | Expr

fun additive_op :: "tok list \<Rightarrow> (binop \<times> tok list) option" where
  "additive_op (TPlus # ts) = Some (Add, ts)"
| "additive_op (TMinus # ts) = Some (Sub, ts)"
| "additive_op ts = None"

fun multiplicative_op :: "tok list \<Rightarrow> (binop \<times> tok list) option" where
  "multiplicative_op (TStar # ts) = Some (Mult, ts)"
| "multiplicative_op (TSlash # ts) = Some (Div, ts)"
| "multiplicative_op (TDSlash # ts) = Some (FloorDiv, ts)"
| "multiplicative_op (TPercent # ts) = Some (Mod, ts)"
| "multiplicative_op ts = None"

fun unary_op :: "tok list \<Rightarrow> ((pyexpr \<Rightarrow> pyexpr) \<times> tok list) option" where
  "unary_op (TPlus # ts) = Some (UAdd, ts)"
| "unary_op (TMinus # ts) = Some (USub, ts)"
| "unary_op ts = None"

text \<open>An atom that is a single token; \<open>None\<close> when an opening parenthesis comes first.\<close>

fun atom_tok :: "tok list \<Rightarrow> presult option" where
  "atom_tok (TNum k # ts) = Some (Parsed (Num k) ts)"
| "atom_tok (TName x # ts) = Some (Parsed (Name x) ts)"
| "atom_tok (TLPar # ts) = None"
| "atom_tok ts = Some Reject"

fun closing :: "pyexpr \<Rightarrow> tok list \<Rightarrow> presult" where
  "closing e (TRPar # ts) = Parsed e ts"
| "closing e ts = Reject"

definition then_parse :: "presult \<Rightarrow> (pyexpr \<Rightarrow> tok list \<Rightarrow> presult) \<Rightarrow> presult" where
  "then_parse r k =
     (case r of Parsed e ts \<Rightarrow> k e ts | Reject \<Rightarrow> Reject | Exhausted \<Rightarrow> Exhausted)"

fun parse :: "nat \<Rightarrow> goal \<Rightarrow> tok list \<Rightarrow> presult" where
  "parse 0 g ts = Exhausted"
| "parse (Suc n) Atom ts =
     (case atom_tok ts of
        Some r \<Rightarrow> r
      | None \<Rightarrow> then_parse (parse n Expr (tl ts)) closing)"
| "parse (Suc n) Factor ts =
     (case unary_op ts of
        Some (u, ts') \<Rightarrow> then_parse (parse n Factor ts') (\<lambda>e ts''. Parsed (u e) ts'')
      | None \<Rightarrow> parse n Atom ts)"
| "parse (Suc n) (TermRest e) ts =
     (case multiplicative_op ts of
        Some (opr, ts') \<Rightarrow>
          then_parse (parse n Factor ts') (\<lambda>e' ts''. parse n (TermRest (BinOp e opr e')) ts'')
      | None \<Rightarrow> Parsed e ts)"
| "parse (Suc n) Term ts =
     then_parse (parse n Factor ts) (\<lambda>e ts'. parse n (TermRest e) ts')"
| "parse (Suc n) (ExprRest e) ts =
     (case additive_op ts of
        Some (opr, ts') \<Rightarrow>
          then_parse (parse n Term ts') (\<lambda>e' ts''. parse n (ExprRest (BinOp e opr e')) ts'')
      | None \<Rightarrow> Parsed e ts)"
| "parse (Suc n) Expr ts =
     then_parse (parse n Term ts) (\<lambda>e ts'. parse n (ExprRest e) ts')"

text \<open>
  Over the tokens of the fragment Python's grammar has two more forms, the call
  \<^verbatim>\<open>f(...)\<close> and the empty tuple \<^verbatim>\<open>()\<close>. Both show in the token list: an opening
  parenthesis after a number, a name or a closing parenthesis, or a closing parenthesis
  right after an opening one. Text with such a pair is outside the fragment; without one,
  text that the grammar above rejects is a syntax error.
\<close>

fun call_or_empty_tuple :: "tok list \<Rightarrow> bool" where
  "call_or_empty_tuple (TLPar # TRPar # ts) = True"
| "call_or_empty_tuple (TNum k # TLPar # ts) = True"
| "call_or_empty_tuple (TName x # TLPar # ts) = True"
| "call_or_empty_tuple (TRPar # TLPar # ts) = True"
| "call_or_empty_tuple (t # ts) = call_or_empty_tuple ts"
| "call_or_empty_tuple [] = False"

text \<open>
  A value is an integer or a float. A float is kept as its \<^verbatim>\<open>repr\<close>; arithmetic on floats
  is outside the fragment.
\<close>

datatype pyval = PyInt int | PyFloat string

text \<open>
  \<^verbatim>\<open>a / b\<close> on integers is true division: the result is the float nearest to the quotient.
  The quotients covered are the multiples of one half below \<open>10\<^sup>1\<^sup>5\<close> in absolute value,
  which are floats exactly and print as \<^verbatim>\<open>k.0\<close> or \<^verbatim>\<open>k.5\<close>; a zero quotient is negative
  when the divisor is.
\<close>

definition float_quotient_repr :: "int \<Rightarrow> int \<Rightarrow> string option" where
  "float_quotient_repr a b =
     (let neg = ((a < 0) \<noteq> (b < 0)); h = (2 * \<bar>a\<bar>) div \<bar>b\<bar>
      in if \<bar>b\<bar> dvd 2 * \<bar>a\<bar> \<and> \<bar>a\<bar> < 10 ^ 15 * \<bar>b\<bar>
         then Some ((if neg then [CHR ''-''] else []) @ str_digits (h div 2) @
                    (if even h then ''.0'' else ''.5''))
         else None)"

fun apply_binop :: "binop \<Rightarrow> pyval \<Rightarrow> pyval \<Rightarrow> pyval outcome" where
  "apply_binop Add (PyInt a) (PyInt b) = Returns (PyInt (a + b))"
| "apply_binop Sub (PyInt a) (PyInt b) = Returns (PyInt (a - b))"
| "apply_binop Mult (PyInt a) (PyInt b) = Returns (PyInt (a * b))"
| "apply_binop Div (PyInt a) (PyInt b) =
     (if b = 0 then Raises ZeroDivisionError
      else case float_quotient_repr a b of None \<Rightarrow> Unmodelled | Some r \<Rightarrow> Returns (PyFloat r))"
| "apply_binop FloorDiv (PyInt a) (PyInt b) =
     (if b = 0 then Raises ZeroDivisionError else Returns (PyInt (a div b)))"
| "apply_binop Mod (PyInt a) (PyInt b) =
     (if b = 0 then Raises ZeroDivisionError else Returns (PyInt (a mod b)))"
| "apply_binop opr v w = Unmodelled"

text \<open>Operands are evaluated from left to right; every name is unbound.\<close>

fun eval_expr :: "pyexpr \<Rightarrow> pyval outcome" where
  "eval_expr (Num i) = Returns (PyInt i)"
| "eval_expr (Name x) = Raises NameError"
| "eval_expr (UAdd e) =
     (case eval_expr e of
        Returns (PyInt i) \<Rightarrow> Returns (PyInt i)
      | Returns (PyFloat r) \<Rightarrow> Unmodelled
      | Raises x \<Rightarrow> Raises x
      | Unmodelled \<Rightarrow> Unmodelled)"
| "eval_expr (USub e) =
     (case eval_expr e of
        Returns (PyInt i) \<Rightarrow> Returns (PyInt (- i))
      | Returns (PyFloat r) \<Rightarrow> Unmodelled
      | Raises x \<Rightarrow> Raises x
      | Unmodelled \<Rightarrow> Unmodelled)"
| "eval_expr (BinOp a opr b) =
     (case eval_expr a of
        Returns v \<Rightarrow>
          (case eval_expr b of
             Returns w \<Rightarrow> apply_binop opr v w
           | Raises x \<Rightarrow> Raises x
           | Unmodelled \<Rightarrow> Unmodelled)
      | Raises x \<Rightarrow> Raises x
      | Unmodelled \<Rightarrow> Unmodelled)"

definition py_eval :: "string \<Rightarrow> pyval outcome" where
  "py_eval expr =
     (if 100 < length expr \<or> \<not> list_all in_alphabet expr then Unmodelled
      else case lex expr of
        Unmodelled \<Rightarrow> Unmodelled
      | Raises x \<Rightarrow> Raises x
      | Returns ts \<Rightarrow>
          if call_or_empty_tuple ts then Unmodelled
          else (case parse (6 * length ts + 6) Expr ts of
                  Parsed e [] \<Rightarrow> eval_expr e
                | Parsed e (t # ts') \<Rightarrow> Raises SyntaxError
                | Reject \<Rightarrow> Raises SyntaxError
                | Exhausted \<Rightarrow> Unmodelled))"

text \<open>\<^verbatim>\<open>str(v)\<close>, also what an f-string puts for \<^verbatim>\<open>{v}\<close>.\<close>

fun py_str :: "pyval \<Rightarrow> string" where
  "py_str (PyInt i) = str_int i"
| "py_str (PyFloat r) = r"


subsection \<open>ConstantFolder\<close>

text \<open>
  \<^verbatim>\<open>param_values\<close> is a dictionary from parameter names to integers; it is kept as the list
  of its items in insertion order, the order in which the loops go through it.
\<close>

type_synonym bindings = "(string \<times> int) list"

text \<open>
  The pattern \<^verbatim>\<open>r'\b' + param + r'\b'\<close>. The name is pasted into the pattern, so the pattern
  is the one below when the name has no character that is special in a pattern; the
  development covers the names that are nonempty runs of word characters.
\<close>

definition plain_word :: "string \<Rightarrow> bool" where
  "plain_word w = (w \<noteq> [] \<and> list_all is_word w)"

definition word_rx :: "string \<Rightarrow> rx" where
  "word_rx param = cat [WordB, Lit param, WordB]"

fun substitute_params :: "bindings \<Rightarrow> string \<Rightarrow> string outcome" where
  "substitute_params [] result = Returns result"
| "substitute_params ((param, val) # ps) result =
     (if plain_word param
      then substitute_params ps (re_sub (word_rx param) (\<lambda>m. str_int val) result)
      else Unmodelled)"

definition fold_expression :: "bindings \<Rightarrow> string \<Rightarrow> string outcome" where
  "fold_expression param_values expr =
     (case substitute_params param_values expr of
        Returns result \<Rightarrow>
          (let result = strip result
           in case py_eval result of
                Returns evaluated \<Rightarrow> Returns (py_str evaluated)
              | Raises x \<Rightarrow> Returns result
              | Unmodelled \<Rightarrow> Unmodelled)
      | Raises x \<Rightarrow> Raises x
      | Unmodelled \<Rightarrow> Unmodelled)"

text \<open>
  \<^verbatim>\<open>\[([^\]]+)\]\<close> and
  \<^verbatim>\<open>(<\s*|<=\s*|>\s*|>=\s*)((?:\d+|\()\s*[+\-*/]\s*(?:\d+|\)))\<close>.
\<close>

definition bracket_rx :: rx where
  "bracket_rx = cat [Lit ''['', Grp 1 (Plus (Cls (NoneOf '']''))), Lit '']'']"

definition comparison_rx :: rx where
  "comparison_rx =
     cat [Grp 1 (Alt (Seq (Lit ''<'') (Star (Cls Space)))
                (Alt (Seq (Lit ''<='') (Star (Cls Space)))
                (Alt (Seq (Lit ''>'') (Star (Cls Space)))
                     (Seq (Lit ''>='') (Star (Cls Space)))))),
          Grp 2 (cat [Alt (Plus (Cls Digit)) (Lit ''(''), Star (Cls Space),
                      Cls (OneOf ''+-*/''), Star (Cls Space),
                      Alt (Plus (Cls Digit)) (Lit '')'')])]"

text \<open>
  The two callbacks. Each evaluates inside \<^verbatim>\<open>try\<close> with a bare \<^verbatim>\<open>except\<close>, so any exception
  leaves the matched text as it is. The flag that goes through the scan records that some
  evaluation was outside the fragment of \<open>py_eval\<close>.
\<close>

definition fold_array_size :: "rmatch \<Rightarrow> bool \<Rightarrow> string \<times> bool" where
  "fold_array_size m u =
     (let expr = group m 1
      in case py_eval expr of
           Returns folded \<Rightarrow> (''['' @ py_str folded @ '']'', u)
         | Raises x \<Rightarrow> (group m 0, u)
         | Unmodelled \<Rightarrow> (group m 0, True))"

definition fold_in_comparison :: "rmatch \<Rightarrow> bool \<Rightarrow> string \<times> bool" where
  "fold_in_comparison m u =
     (let prefix = group m 1;
          expr = group m 2
      in case py_eval expr of
           Returns folded \<Rightarrow> (prefix @ py_str folded, u)
         | Raises x \<Rightarrow> (group m 0, u)
         | Unmodelled \<Rightarrow> (group m 0, True))"

text \<open>The loop \<^verbatim>\<open>for _ in range(3)\<close> with its \<^verbatim>\<open>break\<close> when a pass changes nothing.\<close>

fun comparison_passes :: "nat \<Rightarrow> string \<Rightarrow> bool \<Rightarrow> string \<times> bool" where
  "comparison_passes 0 result u = (result, u)"
| "comparison_passes (Suc k) result u =
     (let prev = result;
          (result, u) = re_sub_st comparison_rx fold_in_comparison result u
      in if result = prev then (result, u) else comparison_passes k result u)"

definition fold_code :: "bindings \<Rightarrow> string \<Rightarrow> string outcome" where
  "fold_code param_values code =
     (case substitute_params param_values code of
        Returns result \<Rightarrow>
          (let (result, u) = re_sub_st bracket_rx fold_array_size result False;
               (result, u) = re_sub_st comparison_rx fold_in_comparison result u;
               (result, u) = comparison_passes 3 result u
           in if u then Unmodelled else Returns result)
      | Raises x \<Rightarrow> Raises x
      | Unmodelled \<Rightarrow> Unmodelled)"

subsection \<open>WrapperGenerator\<close>

text \<open>\<^verbatim>\<open>FunctionSignature\<close>; the parameters are (type, name) pairs.\<close>

record function_signature =
  sig_name :: string
  sig_return_type :: string
  sig_params :: "(string \<times> string) list"

text \<open>\<^verbatim>\<open>t.endswith('*')\<close>, \<^verbatim>\<open>s.lower()\<close>, \<^verbatim>\<open>sub in s\<close>, \<^verbatim>\<open>sep.join(xs)\<close> and \<^verbatim>\<open>s.split(d)\<close>.\<close>

definition endswith_star :: "string \<Rightarrow> bool" where
  "endswith_star t = (t \<noteq> [] \<and> last t = CHR ''*'')"

definition lower_char :: "char \<Rightarrow> char" where
  "lower_char c =
     (let n = code_point c
      in if (65 \<le> n \<and> n \<le> 90) \<or> (192 \<le> n \<and> n \<le> 214) \<or> (216 \<le> n \<and> n \<le> 222)
         then char_of (n + 32) else c)"

definition lower :: "string \<Rightarrow> string" where
  "lower s = map lower_char s"

fun contains :: "string \<Rightarrow> string \<Rightarrow> bool" where
  "contains sub [] = (sub = [])"
| "contains sub (c # cs) = (take (length sub) (c # cs) = sub \<or> contains sub cs)"

definition is_output_name :: "string \<Rightarrow> bool" where
  "is_output_name param_name = contains ''output'' (lower param_name)"

fun join :: "string \<Rightarrow> string list \<Rightarrow> string" where
  "join sep [] = []"
| "join sep [x] = x"
| "join sep (x # xs) = x @ sep @ join sep xs"

fun split_on :: "char \<Rightarrow> string \<Rightarrow> string list" where
  "split_on d [] = [[]]"
| "split_on d (c # cs) =
     (if c = d then [] # split_on d cs
      else case split_on d cs of [] \<Rightarrow> [[c]] | l # ls \<Rightarrow> (c # l) # ls)"

text \<open>\<^verbatim>\<open>s[a:b]\<close> for indices within the string.\<close>

definition slice :: "string \<Rightarrow> nat \<Rightarrow> nat \<Rightarrow> string" where
  "slice s a b = take (b - a) (drop a s)"

text \<open>
  \<^verbatim>\<open>read_function_body\<close>. \<open>c_file\<close> is the content of the function's \<^verbatim>\<open>.c\<close> file, \<open>None\<close>
  when the file does not exist. The pattern is
  \<^verbatim>\<open>void\s+NAME\s*\([^)]+\)\s*\{\<close> with the function's name pasted in.
\<close>

definition header_rx :: "string \<Rightarrow> rx" where
  "header_rx fname =
     cat [Lit ''void'', Plus (Cls Space), Lit fname, Star (Cls Space), Lit ''('',
          Plus (Cls (NoneOf '')'')), Lit '')'', Star (Cls Space), Lit ''{'']"

function scan_braces :: "string \<Rightarrow> nat \<Rightarrow> int \<Rightarrow> nat" where
  "scan_braces content pos brace_count =
     (if pos < length content \<and> 0 < brace_count
      then (if content ! pos = CHR ''{'' then scan_braces content (pos + 1) (brace_count + 1)
            else if content ! pos = CHR ''}'' then scan_braces content (pos + 1) (brace_count - 1)
            else scan_braces content (pos + 1) brace_count)
      else pos)"
  by pat_completeness auto
termination
  by (relation "measure (\<lambda>(content, pos, brace_count). length content - pos)") auto

definition read_function_body :: "function_signature \<Rightarrow> string option \<Rightarrow> string option outcome"
where
  "read_function_body func_sig c_file =
     (case c_file of
        None \<Rightarrow> Returns None
      | Some content \<Rightarrow>
          if \<not> plain_word (sig_name func_sig) then Unmodelled
          else (case re_search (header_rx (sig_name func_sig)) content of
                  None \<Rightarrow> Returns None
                | Some (match_start, match_end, m) \<Rightarrow>
                    (let start = match_end;
                         pos = scan_braces content start 1
                     in Returns (Some (strip (slice content start (pos - 1)))))))"

text \<open>
  The initialiser lines of an input array, ten values a line. \<open>fmt\<close> is the format
  \<^verbatim>\<open>f'{v:.6f}'\<close> of a float.
\<close>

function data_lines :: "('f \<Rightarrow> string) \<Rightarrow> 'f list \<Rightarrow> nat \<Rightarrow> string list" where
  "data_lines fmt arr_data j =
     (if j < length arr_data
      then (''        '' @ join '', '' (map fmt (take 10 (drop j arr_data))) @
              (if j + 10 < length arr_data then '','' else [])) #
           data_lines fmt arr_data (j + 10)
      else [])"
  by pat_completeness auto
termination
  by (relation "measure (\<lambda>(fmt, arr_data, j). length arr_data - j)") auto

text \<open>The first loop of \<^verbatim>\<open>generate\<close>: the declarations of the input arrays.\<close>

fun array_decls ::
  "('f \<Rightarrow> string) \<Rightarrow> (string \<times> string) list \<Rightarrow> 'f list list \<Rightarrow> nat \<Rightarrow> string list" where
  "array_decls fmt [] array_args array_idx = []"
| "array_decls fmt ((param_type, param_name) # ps) array_args array_idx =
     (if endswith_star param_type \<and> \<not> is_output_name param_name
      then (if array_idx < length array_args
            then (let arr_data = array_args ! array_idx;
                      arr_size = length arr_data
                  in [''    float '' @ param_name @ ''['' @ str_int (int arr_size) @ ''] = {''] @
                     data_lines fmt arr_data 0 @ [''    };''] @
                     array_decls fmt ps array_args (array_idx + 1))
            else array_decls fmt ps array_args array_idx)
      else array_decls fmt ps array_args array_idx)"

text \<open>The second loop: the arguments of the call.\<close>

fun call_args :: "(string \<times> string) list \<Rightarrow> int list \<Rightarrow> nat \<Rightarrow> string list" where
  "call_args [] int_args int_idx = []"
| "call_args ((param_type, param_name) # ps) int_args int_idx =
     (if endswith_star param_type
      then (if is_output_name param_name then ''output'' # call_args ps int_args int_idx
            else param_name # call_args ps int_args int_idx)
      else (if int_idx < length int_args
            then str_int (int_args ! int_idx) # call_args ps int_args (int_idx + 1)
            else call_args ps int_args int_idx))"

text \<open>
  The third loop: the values of the scalar parameters. An assignment to a key that the
  dictionary has keeps the key's place.
\<close>

fun dict_set :: "string \<Rightarrow> int \<Rightarrow> bindings \<Rightarrow> bindings" where
  "dict_set k v [] = [(k, v)]"
| "dict_set k v ((k', v') # d) = (if k' = k then (k, v) # d else (k', v') # dict_set k v d)"

fun param_values_loop ::
  "(string \<times> string) list \<Rightarrow> int list \<Rightarrow> nat \<Rightarrow> bindings \<Rightarrow> bindings" where
  "param_values_loop [] int_args int_idx param_values = param_values"
| "param_values_loop ((param_type, param_name) # ps) int_args int_idx param_values =
     (if endswith_star param_type then param_values_loop ps int_args int_idx param_values
      else (if int_idx < length int_args
            then param_values_loop ps int_args (int_idx + 1)
                   (dict_set param_name (int_args ! int_idx) param_values)
            else param_values_loop ps int_args int_idx param_values))"

text \<open>\<^verbatim>\<open>(float \w+\[[^\]]+\]);\<close>, replaced by \<^verbatim>\<open>\1 = {0};\<close>.\<close>

definition vla_init_rx :: rx where
  "vla_init_rx =
     cat [Grp 1 (cat [Lit ''float '', Plus (Cls Word), Lit ''['', Plus (Cls (NoneOf '']'')),
                      Lit '']'']),
          Lit '';'']"

definition call_line :: "function_signature \<Rightarrow> int list \<Rightarrow> string" where
  "call_line func_sig int_args =
     ''    '' @ sig_name func_sig @ ''('' @
     join '', '' (call_args (sig_params func_sig) int_args 0) @ '');''"

text \<open>The lines for the call or the inlined body.\<close>

definition body_lines ::
  "function_signature \<Rightarrow> int list \<Rightarrow> bool \<Rightarrow> string option \<Rightarrow> string list outcome" where
  "body_lines func_sig int_args inline c_file =
     (if inline then
        (case read_function_body func_sig c_file of
           Unmodelled \<Rightarrow> Unmodelled
         | Raises x \<Rightarrow> Raises x
         | Returns func_body \<Rightarrow>
             (if func_body \<noteq> None \<and> func_body \<noteq> Some []
              then (let param_values = param_values_loop (sig_params func_sig) int_args 0 []
                    in case fold_code param_values (case func_body of Some b \<Rightarrow> b | None \<Rightarrow> []) of
                         Unmodelled \<Rightarrow> Unmodelled
                       | Raises x \<Rightarrow> Raises x
                       | Returns folded_body \<Rightarrow>
                           (let folded_body =
                                  re_sub vla_init_rx (\<lambda>m. group m 1 @ '' = {0};'') folded_body
                            in Returns ([''    // Inlined and constant-folded function body''] @
                                 map (\<lambda>line. ''    '' @ line)
                                   (filter (\<lambda>line. strip line \<noteq> [])
                                      (split_on CHR 0x0A folded_body)) @
                                 [[]])))
              else Returns [call_line func_sig int_args, []]))
      else Returns [call_line func_sig int_args, []])"

text \<open>\<^verbatim>\<open>generate\<close>: the list \<open>code\<close> of lines, and the program text.\<close>

definition generate_lines ::
  "('f \<Rightarrow> string) \<Rightarrow> function_signature \<Rightarrow> string option \<Rightarrow> int list \<Rightarrow> 'f list list \<Rightarrow> int \<Rightarrow>
   bool \<Rightarrow> string list outcome" where
  "generate_lines fmt func_sig c_file int_args array_args output_size inline =
     (case body_lines func_sig int_args inline c_file of
        Unmodelled \<Rightarrow> Unmodelled
      | Raises x \<Rightarrow> Raises x
      | Returns body \<Rightarrow>
          Returns
            ([if \<not> inline then ''#include \"'' @ sig_name func_sig @ ''.h\"''
              else ''#include <stdlib.h>'',
              ''#include <stdio.h>'',
              [],
              ''int main() {''] @
             array_decls fmt (sig_params func_sig) array_args 0 @
             [''    float output['' @ str_int output_size @ ''] = {0};'',
              []] @
             body @
             [''    // Print output'',
              ''    for (int i = 0; i < '' @ str_int output_size @ ''; i++) {'',
              ''        printf(\"%f \", output[i]);'',
              ''        if ((i + 1) % 10 == 0) printf(\"'' @ [CHR 0x5C] @ ''n\");'',
              ''    }'',
              ''    printf(\"'' @ [CHR 0x5C] @ ''n\");'',
              [],
              ''    return 0;'',
              ''}'']))"

definition generate ::
  "('f \<Rightarrow> string) \<Rightarrow> function_signature \<Rightarrow> string option \<Rightarrow> int list \<Rightarrow> 'f list list \<Rightarrow> int \<Rightarrow>
   bool \<Rightarrow> string outcome" where
  "generate fmt func_sig c_file int_args array_args output_size inline =
     (case generate_lines fmt func_sig c_file int_args array_args output_size inline of
        Unmodelled \<Rightarrow> Unmodelled
      | Raises x \<Rightarrow> Raises x
      | Returns code \<Rightarrow> Returns (join [CHR 0x0A] code))"

subsection \<open>main\<close>

text \<open>
  The parsed command line, and what \<^verbatim>\<open>main\<close> takes from outside the program: the registry
  that scanning the library directory gives, the content of the \<^verbatim>\<open>.c\<close> file of a function
  there (\<open>None\<close> when there is no such file), what \<^verbatim>\<open>open\<close> and \<^verbatim>\<open>json.load\<close> give for a path (an exception or the data), Python's
  \<^verbatim>\<open>int\<close> and \<^verbatim>\<open>float\<close>, the float format, and the exit status of the compiler.
\<close>

record cli =
  cli_function_name :: string
  cli_args :: "string list"
  cli_output_size :: int
  cli_output :: "string option"
  cli_compile :: bool
  cli_run :: bool
  cli_no_inline :: bool

record 'f world =
  registry :: "(string \<times> function_signature) list"
  c_file_of :: "string \<Rightarrow> string option"
  json_load :: "string \<Rightarrow> exn + 'f json"
  py_int :: "string \<Rightarrow> int option"
  float_of_int :: "int \<Rightarrow> 'f option"
  float_format :: "'f \<Rightarrow> string"
  compiler_returncode :: "string \<Rightarrow> int"

text \<open>
  The loop over the positional arguments; \<open>None\<close> stands for the \<^verbatim>\<open>return 1\<close> in it (a file
  that does not load, an argument that is not a number).
\<close>

fun parse_arguments ::
  "'f world \<Rightarrow> string list \<Rightarrow> int list \<Rightarrow> 'f list list \<Rightarrow> (int list \<times> 'f list list) option" where
  "parse_arguments w [] int_args array_args = Some (int_args, array_args)"
| "parse_arguments w (arg # rest) int_args array_args =
     (if take 1 arg = ''@''
      then (case json_load w (drop 1 arg) of
              Inl e \<Rightarrow> None
            | Inr data \<Rightarrow>
                (case load_json_array (float_of_int w) data of
                   Inl e \<Rightarrow> None
                 | Inr arr_data \<Rightarrow> parse_arguments w rest int_args (array_args @ [arr_data])))
      else (case py_int w arg of
              None \<Rightarrow> None
            | Some i \<Rightarrow> parse_arguments w rest (int_args @ [i]) array_args))"

definition expected_int_count :: "function_signature \<Rightarrow> nat" where
  "expected_int_count func_sig =
     length (filter (\<lambda>(t, n). \<not> endswith_star t) (sig_params func_sig))"

definition expected_array_count :: "function_signature \<Rightarrow> nat" where
  "expected_array_count func_sig =
     length (filter (\<lambda>(t, n). endswith_star t \<and> \<not> is_output_name n) (sig_params func_sig))"

text \<open>
  \<^verbatim>\<open>main\<close> returns the exit code; \<open>files\<close> maps a path to the content the program has
  written there.
\<close>

definition main ::
  "'f world \<Rightarrow> cli \<Rightarrow> (string \<rightharpoonup> string) \<Rightarrow> (int \<times> (string \<rightharpoonup> string)) outcome" where
  "main w a files =
     (if registry w = [] then Returns (1, files)
      else case map_of (registry w) (cli_function_name a) of
        None \<Rightarrow> Returns (1, files)
      | Some func_sig \<Rightarrow>
          (case parse_arguments w (cli_args a) [] [] of
             None \<Rightarrow> Returns (1, files)
           | Some (int_args, array_args) \<Rightarrow>
               if length int_args \<noteq> expected_int_count func_sig then Returns (1, files)
               else if length array_args \<noteq> expected_array_count func_sig then Returns (1, files)
               else (case generate (float_format w) func_sig
                             (c_file_of w (sig_name func_sig)) int_args array_args
                             (cli_output_size a) (\<not> cli_no_inline a) of
                       Unmodelled \<Rightarrow> Unmodelled
                     | Raises x \<Rightarrow> Raises x
                     | Returns code \<Rightarrow>
                         (let output_file =
                                (case cli_output a of
                                   Some path \<Rightarrow> path
                                 | None \<Rightarrow> ''wrapper_'' @ cli_function_name a @ ''.c'');
                              files = files(output_file \<mapsto> code)
                          in if (cli_compile a \<or> cli_run a) \<and>
                                compiler_returncode w output_file \<noteq> 0
                             then Returns (1, files)
                             else Returns (0, files)))))"


section \<open>Vocabulary of the properties\<close>

subsection \<open>Matching\<close>

text \<open>
  A pattern rejects a character class when it cannot match text that starts with a
  character of the class. \<open>run_end\<close> is the character before the position where the
  longest run of the class ends. \<open>no_match_before r n s\<close> says that no match of \<open>r\<close>
  starts at one of the first \<open>n\<close> positions of \<open>s\<close>.
\<close>

definition rejects :: "cclass \<Rightarrow> rx \<Rightarrow> bool" where
  "rejects k r = (\<forall>p x xs g. in_class k x \<longrightarrow> ms r (p, x # xs, g) = [])"

definition run_end :: "cclass \<Rightarrow> char option \<Rightarrow> string \<Rightarrow> char option" where
  "run_end k p s =
     (if takeWhile (in_class k) s = [] then p else Some (last (takeWhile (in_class k) s)))"

definition no_match_before :: "rx \<Rightarrow> nat \<Rightarrow> string \<Rightarrow> bool" where
  "no_match_before r n s = list_all (\<lambda>i. rx_match r None (drop i s) = None) [0..<n]"

subsection \<open>The passes of the allocation rewriter\<close>

text \<open>
  The text of a heap allocation and of a deallocation, as the rewriter's patterns expect
  them, and the text after each of the first three substitutions of
  \<^verbatim>\<open>transform_calloc_to_vla\<close> (lemma \<open>transform_text\<close> below puts them together).
\<close>

definition calloc_text :: "string \<Rightarrow> string \<Rightarrow> string" where
  "calloc_text var size_expr =
     ''float *'' @ var @ '' = calloc('' @ size_expr @ '', sizeof(float));''"

definition free_text :: "string \<Rightarrow> string" where
  "free_text var = ''free('' @ var @ '');''"

definition calloc_pass :: "string \<Rightarrow> string" where
  "calloc_pass text = fst (re_sub_st calloc_rx replace_calloc text initial_stats)"

definition free_pass :: "string \<Rightarrow> string" where
  "free_pass text = fst (re_sub_st free_rx replace_free text initial_stats)"

definition vla_pass :: "string \<Rightarrow> string" where
  "vla_pass text = fst (re_sub_st vla_rx simplify_vla text initial_stats)"

text \<open>
  The warning that \<^verbatim>\<open>replace_calloc\<close> records for a buffer: none, or the one message.
\<close>

definition size_warning :: "string \<Rightarrow> string \<Rightarrow> string list" where
  "size_warning var size_expr =
     (if 1 < count_list (simplify_expression size_expr) CHR ''(''
      then [''Complex size expression for '' @ var @ '': '' @ simplify_expression size_expr]
      else [])"

text \<open>
  The deepest level of nested parentheses in a text, in the words of the specification:
  \<^verbatim>\<open>(a) * (b)\<close> has one level, \<^verbatim>\<open>((a))\<close> has two.
\<close>

fun nesting :: "nat \<Rightarrow> string \<Rightarrow> nat" where
  "nesting d [] = 0"
| "nesting d (c # cs) =
     (if c = CHR ''('' then max (d + 1) (nesting (d + 1) cs)
      else if c = CHR '')'' then nesting (d - 1) cs
      else nesting d cs)"

definition paren_nesting :: "string \<Rightarrow> nat" where
  "paren_nesting s = nesting 0 s"

subsection \<open>Balanced braces\<close>

text \<open>
  The vocabulary of the claim about \<^verbatim>\<open>read_function_body\<close>: the depth of a text is the
  number of its opening braces minus the number of its closing ones, and a body is
  balanced when its depth is zero and no prefix of it closes more braces than it opens.
  The closing brace after a balanced body is the one that matches the brace before it.
\<close>

definition brace_depth :: "string \<Rightarrow> int" where
  "brace_depth s = int (count_list s CHR ''{'') - int (count_list s CHR ''}'')"

definition balanced :: "string \<Rightarrow> bool" where
  "balanced body =
     (brace_depth body = 0 \<and>
      list_all (\<lambda>k. 0 \<le> brace_depth (take k body)) [0..<Suc (length body)])"


subsection \<open>Examples\<close>



text \<open>The signature \<^verbatim>\<open>void f(int n)\<close>.\<close>

definition f_sig :: function_signature where
  "f_sig = \<lparr>sig_name = ''f'', sig_return_type = ''void'', sig_params = [(''int'', ''n'')]\<rparr>"

text \<open>
  The recursive equations of the loops are used by hand in the proofs below.
\<close>

declare scan_braces.simps [simp del]

declare ms.simps [simp del]


section \<open>Properties of matching and substitution\<close>

subsection \<open>Greedy runs of a character class\<close>

text \<open>
  After a greedy run of a class, a pattern that rejects the class can only match at the
  end of the longest run: backtracking into the run never succeeds.
\<close>

lemma ms_Lit_prefix:
  "w \<noteq> [] \<Longrightarrow> ms (Lit w) (p, w @ t, g) = [(Some (last w), t, g)]"
  by (simp add: ms.simps)

lemma ms_Seq_Lit_prefix:
  "w \<noteq> [] \<Longrightarrow> ms (Seq (Lit w) r) (p, w @ t, g) = ms r (Some (last w), t, g)"
  by (simp add: ms.simps)

lemma rejects_Lit: "\<not> in_class k c \<Longrightarrow> rejects k (Lit (c # w))"
  by (auto simp: rejects_def ms.simps)

lemma rejects_Seq_Lit: "\<not> in_class k c \<Longrightarrow> rejects k (Seq (Lit (c # w)) r)"
  by (auto simp: rejects_def ms.simps)

lemma star_class_greedy:
  assumes "\<And>p x xs g. in_class k x \<Longrightarrow> F (p, x # xs, g) = []"
  shows "concat (map F (ms (Star (Cls k)) (p, s, g))) =
         F (run_end k p s, dropWhile (in_class k) s, g)"
proof (induction s arbitrary: p)
  case Nil
  show ?case by (simp add: ms.simps run_end_def)
next
  case (Cons x xs)
  show ?case
  proof (cases "in_class k x")
    case True
    have "ms (Star (Cls k)) (p, x # xs, g) = ms (Star (Cls k)) (Some x, xs, g) @ [(p, x # xs, g)]"
      using True by (subst ms.simps(5)) (simp add: ms.simps(2))
    moreover have "run_end k (Some x) xs = run_end k p (x # xs)"
      using True by (simp add: run_end_def)
    ultimately show ?thesis
      using True Cons.IH[of "Some x"] assms[OF True] by simp
  next
    case False
    have "ms (Star (Cls k)) (p, x # xs, g) = [(p, x # xs, g)]"
      using False by (subst ms.simps(5)) (simp add: ms.simps(2))
    with False show ?thesis by (simp add: run_end_def)
  qed
qed

lemma rejectsD: "rejects k r \<Longrightarrow> in_class k x \<Longrightarrow> ms r (p, x # xs, g) = []"
  unfolding rejects_def by blast

lemma ms_Seq_Star_class:
  assumes "rejects k r"
  shows "ms (Seq (Star (Cls k)) r) (p, s, g) = ms r (run_end k p s, dropWhile (in_class k) s, g)"
proof -
  have h: "\<And>p x xs g. in_class k x \<Longrightarrow> ms r (p, x # xs, g) = []"
    by (rule rejectsD[OF assms])
  note greedy = star_class_greedy[of k "ms r" p s g, OF h]
  show ?thesis by (rule trans[OF ms.simps(3) greedy])
qed

lemma take_run:
  "take (Suc (length xs) - length (dropWhile P xs)) (x # xs) = x # takeWhile P xs"
proof -
  have "length xs = length (takeWhile P xs) + length (dropWhile P xs)"
    by (metis length_append takeWhile_dropWhile_id)
  then have "Suc (length xs) - length (dropWhile P xs) = Suc (length (takeWhile P xs))" by simp
  moreover have "take (length (takeWhile P xs)) xs = takeWhile P xs"
    by (rule takeWhile_eq_take[symmetric])
  ultimately show ?thesis by simp
qed

lemma ms_Seq_Grp_Plus_class:
  assumes "rejects k r"
  shows "ms (Seq (Grp n (Plus (Cls k))) r) (p, s, g) =
         (if takeWhile (in_class k) s = [] then []
          else ms r (Some (last (takeWhile (in_class k) s)), dropWhile (in_class k) s,
                     (n, takeWhile (in_class k) s) # g))"
proof (cases s)
  case Nil
  then show ?thesis by (simp add: ms.simps Plus_def)
next
  case (Cons x xs)
  show ?thesis
  proof (cases "in_class k x")
    case False
    with Cons show ?thesis by (simp add: ms.simps Plus_def)
  next
    case True
    define F where "F = (\<lambda>st. ms r (case st of (p', s', g') \<Rightarrow>
        (p', s', (n, take (length (x # xs) - length s') (x # xs)) # g')))"
    have h: "\<And>p y ys g. in_class k y \<Longrightarrow> ms r (p, y # ys, g) = []"
      by (rule rejectsD[OF assms])
    have rej: "\<And>p y ys g. in_class k y \<Longrightarrow> F (p, y # ys, g) = []"
      unfolding F_def by (simp add: h)
    have "ms (Seq (Grp n (Plus (Cls k))) r) (p, x # xs, g) =
          concat (map F (ms (Star (Cls k)) (Some x, xs, g)))"
      using True by (simp add: ms.simps(2,3,6) Plus_def F_def comp_def)
    also have "\<dots> = F (run_end k (Some x) xs, dropWhile (in_class k) xs, g)"
      by (rule star_class_greedy[of k F, OF rej])
    also have "\<dots> = ms r (Some (last (x # takeWhile (in_class k) xs)), dropWhile (in_class k) xs,
                     (n, x # takeWhile (in_class k) xs) # g)"
      by (simp add: F_def run_end_def take_run)
    finally show ?thesis using True Cons by simp
  qed
qed

lemma takeWhile_run:
  "list_all P run \<Longrightarrow> \<not> P c \<Longrightarrow> takeWhile P (run @ c # t) = run"
  by (induction run) auto

lemma dropWhile_run:
  "list_all P run \<Longrightarrow> \<not> P c \<Longrightarrow> dropWhile P (run @ c # t) = c # t"
  by (induction run) auto

subsection \<open>The scan around a match\<close>

lemma sub_scan_skip:
  "sub_scan r f (length xs) p (xs @ t) st =
   sub_scan r f 0 (if xs = [] then p else Some (last xs)) t st"
  by (induction xs arbitrary: p) auto

lemma sub_scan_match:
  assumes "rx_match r p (xs @ t) = Some (length xs, m)" and "xs \<noteq> []"
  shows "sub_scan r f 0 p (xs @ t) st =
         (let (rep, st1) = f m st; (out, st2) = sub_scan r f 0 (Some (last xs)) t st1
          in (rep @ out, st2))"
proof -
  from assms(2) obtain c cs where xs: "xs = c # cs" by (cases xs) auto
  have "sub_scan r f (length cs) (Some c) (cs @ t) st1 =
        sub_scan r f 0 (Some (last xs)) t st1" for st1
    using sub_scan_skip[of r f cs "Some c" t st1] by (simp add: xs)
  with assms(1) show ?thesis by (simp add: xs Let_def split: prod.splits)
qed

lemma sub_scan_prefix:
  assumes "\<And>i q. i < length pre \<Longrightarrow> rx_match r q (drop i (pre @ t)) = None"
  shows "sub_scan r f 0 p (pre @ t) st =
         (let (out, st') = sub_scan r f 0 (if pre = [] then p else Some (last pre)) t st
          in (pre @ out, st'))"
  using assms
proof (induction pre arbitrary: p)
  case Nil
  show ?case by (simp split: prod.splits)
next
  case (Cons c cs)
  have here: "rx_match r p (c # cs @ t) = None" using Cons.prems[of 0 p] by simp
  have later: "\<And>i q. i < length cs \<Longrightarrow> rx_match r q (drop i (cs @ t)) = None"
    using Cons.prems[of "Suc _"] by simp
  from Cons.IH[OF later, of "Some c"] here show ?case
    by (simp add: Let_def split: prod.splits)
qed

lemma sub_scan_prev:
  assumes "\<And>p q s. rx_match r p s = rx_match r q s"
  shows "sub_scan r f k p s st = sub_scan r f k q s st"
proof (induction s arbitrary: k p q st)
  case Nil
  show ?case using assms[of p "[]" q] by simp
next
  case (Cons c cs)
  show ?case using assms[of p "c # cs" q] by simp
qed

lemma sub_scan_text_state:
  assumes "\<And>m st st'. fst (f m st) = fst (f m st')"
  shows "fst (sub_scan r f k p s st) = fst (sub_scan r f k p s st')"
proof (induction s arbitrary: k p st st')
  case Nil
  show ?case using assms by (auto split: option.splits)
next
  case (Cons c cs)
  show ?case
  proof (cases "0 < k")
    case True
    then show ?thesis using Cons.IH by simp
  next
    case False
    show ?thesis
    proof (cases "rx_match r p (c # cs)")
      case None
      with False Cons.IH[of 0 "Some c" st st'] show ?thesis
        by (simp add: split_beta)
    next
      case (Some nm)
      obtain n m where nm: "nm = (n, m)" by (cases nm)
      from Some nm False assms[of m st st']
        Cons.IH[of 0 "Some c" "snd (f m st)" "snd (f m st')"]
        Cons.IH[of "n - 1" "Some c" "snd (f m st)" "snd (f m st')"]
      show ?thesis by (simp add: split_beta Let_def)
    qed
  qed
qed

lemma sub_scan_preserves:
  assumes "\<And>m st. P (snd (f m st)) = P st"
  shows "P (snd (sub_scan r f k p s st)) = P st"
proof (induction s arbitrary: k p st)
  case Nil
  show ?case using assms by (auto split: option.splits)
next
  case (Cons c cs)
  show ?case
  proof (cases "0 < k")
    case True
    then show ?thesis using Cons.IH by simp
  next
    case False
    show ?thesis
    proof (cases "rx_match r p (c # cs)")
      case None
      with False Cons.IH[of 0 "Some c" st] show ?thesis by (simp add: split_beta)
    next
      case (Some nm)
      obtain n m where nm: "nm = (n, m)" by (cases nm)
      from Some nm False assms[of m st]
        Cons.IH[of 0 "Some c" "snd (f m st)"] Cons.IH[of "n - 1" "Some c" "snd (f m st)"]
      show ?thesis by (simp add: split_beta Let_def)
    qed
  qed
qed

lemma rx_match_Seq_Lit_prev:
  "rx_match (Seq (Lit (c # w)) r) p s = rx_match (Seq (Lit (c # w)) r) q s"
  by (simp add: rx_match_def ms.simps(1,3))

subsection \<open>Scanning text in which the pattern does not occur\<close>








section \<open>Properties of the allocation rewriter\<close>

subsection \<open>simplify\_expression\<close>








subsection \<open>The calloc and free patterns\<close>

lemma not_word_space: "\<not> in_class Word CHR '' ''"
  by (simp add: is_word_def code_point_def)

lemma not_word_paren: "\<not> in_class Word CHR '')''"
  by (simp add: is_word_def code_point_def)

lemma rx_match_calloc:
  assumes "plain_word var" and "size_expr \<noteq> []" and "CHR '','' \<notin> set size_expr"
  shows "rx_match calloc_rx p (calloc_text var size_expr @ post) =
         Some (length (calloc_text var size_expr),
               (calloc_text var size_expr, [(2, size_expr), (1, var)]))"
proof -
  have var: "var \<noteq> []" "list_all (in_class Word) var"
    using assms(1) by (simp_all add: plain_word_def list_all_iff)
  have size: "list_all (in_class (NoneOf '','')) size_expr"
    using assms(3) by (auto simp: list_all_iff)
  have r1: "rejects Word (Seq (Lit '' = calloc('') r)" for r
    by (rule rejects_Seq_Lit[OF not_word_space])
  have r2: "rejects (NoneOf '','') (Lit '', sizeof(float));'')"
    by (rule rejects_Lit) simp
  have "ms calloc_rx (p, calloc_text var size_expr @ post, []) =
        [(Some CHR '';'', post, [(2, size_expr), (1, var)])]"
    unfolding calloc_rx_def calloc_text_def cat.simps
    using ms_Seq_Lit_prefix[of "''float *''"] ms_Seq_Lit_prefix[of "'' = calloc(''"]
      ms_Lit_prefix[of "'', sizeof(float));''"]
    by (simp add: ms_Seq_Grp_Plus_class[OF r1] ms_Seq_Grp_Plus_class[OF r2]
        takeWhile_run[OF var(2) not_word_space] dropWhile_run[OF var(2) not_word_space]
        takeWhile_run[OF size] dropWhile_run[OF size] var(1) assms(2))
  then show ?thesis by (simp add: rx_match_def)
qed

lemma rx_match_free:
  assumes "plain_word var"
  shows "rx_match free_rx p (free_text var @ post) =
         Some (length (free_text var), (free_text var, [(1, var)]))"
proof -
  have var: "var \<noteq> []" "list_all (in_class Word) var"
    using assms(1) by (simp_all add: plain_word_def list_all_iff)
  have r1: "rejects Word (Lit '');'')"
    by (rule rejects_Lit[OF not_word_paren])
  have "ms free_rx (p, free_text var @ post, []) = [(Some CHR '';'', post, [(1, var)])]"
    unfolding free_rx_def free_text_def cat.simps
    using ms_Seq_Lit_prefix[of "''free(''"] ms_Lit_prefix[of "'');''"]
    by (simp add: ms_Seq_Grp_Plus_class[OF r1]
        takeWhile_run[OF var(2) not_word_paren] dropWhile_run[OF var(2) not_word_paren] var(1))
  then show ?thesis by (simp add: rx_match_def)
qed

subsection \<open>transform\_calloc\_to\_vla\<close>

lemma no_match_beforeD:
  assumes "no_match_before (Seq (Lit (c # w)) r) n s" and "i < n"
  shows "rx_match (Seq (Lit (c # w)) r) q (drop i s) = None"
proof -
  from assms have "rx_match (Seq (Lit (c # w)) r) None (drop i s) = None"
    by (simp add: no_match_before_def list_all_iff)
  then show ?thesis by (simp add: rx_match_Seq_Lit_prev[of c w r q _ None])
qed

lemma calloc_rx_Seq: "calloc_rx = Seq (Lit ''float *'') (cat [Grp 1 (Plus (Cls Word)),
    Lit '' = calloc('', Grp 2 (Plus (Cls (NoneOf '',''))), Lit '', sizeof(float));''])"
  by (simp add: calloc_rx_def)

lemma free_rx_Seq: "free_rx = Seq (Lit ''free('') (cat [Grp 1 (Plus (Cls Word)), Lit '');''])"
  by (simp add: free_rx_def)

lemma text_replace_calloc:
  "fst (replace_calloc m st) =
   ''float '' @ group m 1 @ ''['' @ simplify_expression (group m 2) @ ''];''"
  by (simp add: replace_calloc_def Let_def)

lemma text_replace_free: "fst (replace_free m st) = ''// '' @ group m 1 @ '' auto-freed (VLA)''"
  by (simp add: replace_free_def Let_def)

lemma text_simplify_vla:
  "fst (simplify_vla m st) =
   ''float '' @ group m 1 @ ''['' @ simplify_expression (group m 2) @ ''];''"
  by (simp add: simplify_vla_def Let_def)

lemma warnings_replace_calloc:
  "warnings (snd (replace_calloc m st)) = warnings st @ size_warning (group m 1) (group m 2)"
proof -
  have "CHR ''('' \<in> set s \<and> 1 < count_list s CHR ''('' \<longleftrightarrow> 1 < count_list s CHR ''(''" for s
    using count_list_0_iff[of s "CHR ''(''"] by auto
  then show ?thesis by (simp add: replace_calloc_def Let_def size_warning_def)
qed

lemma warnings_replace_free: "warnings (snd (replace_free m st)) = warnings st"
  by (simp add: replace_free_def Let_def)

lemma warnings_simplify_vla: "warnings (snd (simplify_vla m st)) = warnings st"
  by (simp add: simplify_vla_def Let_def)

lemma transform_text:
  "fst (transform_calloc_to_vla c_code) =
   simplify_all_expressions (vla_pass (free_pass (calloc_pass c_code)))"
proof -
  have 1: "fst (re_sub_st free_rx replace_free t st) = free_pass t" for t st
    unfolding free_pass_def re_sub_st_def
    by (rule sub_scan_text_state) (simp add: text_replace_free)
  have 2: "fst (re_sub_st vla_rx simplify_vla t st) = vla_pass t" for t st
    unfolding vla_pass_def re_sub_st_def
    by (rule sub_scan_text_state) (simp add: text_simplify_vla)
  show ?thesis
    by (simp add: transform_calloc_to_vla_def split_beta Let_def 1 2 calloc_pass_def)
qed

lemma transform_warnings:
  "warnings (snd (transform_calloc_to_vla c_code)) =
   warnings (snd (re_sub_st calloc_rx replace_calloc c_code initial_stats))"
  by (simp add: transform_calloc_to_vla_def split_beta Let_def re_sub_st_def
      sub_scan_preserves[of warnings, OF warnings_replace_free]
      sub_scan_preserves[of warnings, OF warnings_simplify_vla])

lemma warnings_accumulate:
  "warnings (snd (sub_scan r replace_calloc k p s st)) =
   warnings st @ warnings (snd (sub_scan r replace_calloc k p s initial_stats))"
proof (induction s arbitrary: k p st)
  case Nil
  show ?case
    by (auto simp: warnings_replace_calloc initial_stats_def split: option.splits)
next
  case (Cons c cs)
  show ?case
  proof (cases "0 < k")
    case True
    then show ?thesis using Cons.IH[of "k - 1" "Some c" st] by simp
  next
    case False
    show ?thesis
    proof (cases "rx_match r p (c # cs)")
      case None
      with False Cons.IH[of 0 "Some c" st] show ?thesis by (simp add: split_beta)
    next
      case (Some nm)
      obtain n m where nm: "nm = (n, m)" by (cases nm)
      have init: "warnings initial_stats = []" by (simp add: initial_stats_def)
      from Some nm False
        Cons.IH[of 0 "Some c" "snd (replace_calloc m st)"]
        Cons.IH[of "n - 1" "Some c" "snd (replace_calloc m st)"]
        Cons.IH[of 0 "Some c" "snd (replace_calloc m initial_stats)"]
        Cons.IH[of "n - 1" "Some c" "snd (replace_calloc m initial_stats)"]
      show ?thesis by (simp add: split_beta Let_def warnings_replace_calloc init)
    qed
  qed
qed

lemma calloc_scan:
  assumes "plain_word var" and "size_expr \<noteq> []" and "CHR '','' \<notin> set size_expr"
    and "no_match_before calloc_rx (length pre) (pre @ calloc_text var size_expr @ post)"
  shows "sub_scan calloc_rx replace_calloc 0 None (pre @ calloc_text var size_expr @ post) st =
         (let st1 = snd (replace_calloc (calloc_text var size_expr, [(2, size_expr), (1, var)]) st);
              (out, st2) = sub_scan calloc_rx replace_calloc 0 None post st1
          in (pre @ ''float '' @ var @ ''['' @ simplify_expression size_expr @ ''];'' @ out, st2))"
proof -
  define decl where "decl = calloc_text var size_expr"
  have ne: "decl \<noteq> []" by (simp add: decl_def calloc_text_def)
  have before: "\<And>i q. i < length pre \<Longrightarrow> rx_match calloc_rx q (drop i (pre @ decl @ post)) = None"
    using assms(4) unfolding calloc_rx_Seq decl_def by (rule no_match_beforeD)
  have prev: "sub_scan calloc_rx replace_calloc 0 q post st' =
      sub_scan calloc_rx replace_calloc 0 None post st'" for q st'
    unfolding calloc_rx_Seq by (rule sub_scan_prev) (rule rx_match_Seq_Lit_prev)
  have m: "rx_match calloc_rx q (decl @ post) = Some (length decl, (decl, [(2, size_expr), (1, var)]))"
    for q unfolding decl_def by (rule rx_match_calloc[OF assms(1-3)])
  have "sub_scan calloc_rx replace_calloc 0 None (pre @ decl @ post) st =
        (let (out, st') = sub_scan calloc_rx replace_calloc 0
               (if pre = [] then None else Some (last pre)) (decl @ post) st
         in (pre @ out, st'))"
    by (rule sub_scan_prefix[OF before])
  then show ?thesis
    unfolding decl_def[symmetric]
    by (simp add: sub_scan_match[OF m ne] prev[of "Some (last decl)"] split_beta Let_def
        text_replace_calloc group_def)
qed

lemma free_scan:
  assumes "plain_word var"
    and "no_match_before free_rx (length pre) (pre @ free_text var @ post)"
  shows "sub_scan free_rx replace_free 0 None (pre @ free_text var @ post) st =
         (let st1 = snd (replace_free (free_text var, [(1, var)]) st);
              (out, st2) = sub_scan free_rx replace_free 0 None post st1
          in (pre @ ''// '' @ var @ '' auto-freed (VLA)'' @ out, st2))"
proof -
  define call where "call = free_text var"
  have ne: "call \<noteq> []" by (simp add: call_def free_text_def)
  have before: "\<And>i q. i < length pre \<Longrightarrow> rx_match free_rx q (drop i (pre @ call @ post)) = None"
    using assms(2) unfolding free_rx_Seq call_def by (rule no_match_beforeD)
  have prev: "sub_scan free_rx replace_free 0 q post st' =
      sub_scan free_rx replace_free 0 None post st'" for q st'
    unfolding free_rx_Seq by (rule sub_scan_prev) (rule rx_match_Seq_Lit_prev)
  have m: "rx_match free_rx q (call @ post) = Some (length call, (call, [(1, var)]))"
    for q unfolding call_def by (rule rx_match_free[OF assms(1)])
  have "sub_scan free_rx replace_free 0 None (pre @ call @ post) st =
        (let (out, st') = sub_scan free_rx replace_free 0
               (if pre = [] then None else Some (last pre)) (call @ post) st
         in (pre @ out, st'))"
    by (rule sub_scan_prefix[OF before])
  then show ?thesis
    unfolding call_def[symmetric]
    by (simp add: sub_scan_match[OF m ne] prev[of "Some (last call)"] split_beta Let_def
        text_replace_free group_def)
qed

text \<open>
  Claim C5 (as amended). Take a variable name that is a run of word characters and a size
  expression that is not empty and has no comma. The first substitution of the rewriter
  replaces the leftmost \<^verbatim>\<open>float *name = calloc(size_expr, sizeof(float));\<close> by
  \<^verbatim>\<open>float name[simplify(size_expr)];\<close> and goes on in the same way after it; the second
  substitution does the same with \<^verbatim>\<open>free(name);\<close> and the comment
  \<^verbatim>\<open>// name auto-freed (VLA)\<close>.
\<close>

theorem calloc_and_free_replaced:
  assumes "plain_word var" and "size_expr \<noteq> []" and "CHR '','' \<notin> set size_expr"
    and "no_match_before calloc_rx (length pre) (pre @ calloc_text var size_expr @ post)"
    and "no_match_before free_rx (length pre') (pre' @ free_text var @ post')"
  shows "calloc_pass (pre @ calloc_text var size_expr @ post) =
           pre @ ''float '' @ var @ ''['' @ simplify_expression size_expr @ ''];'' @
           calloc_pass post \<and>
         free_pass (pre' @ free_text var @ post') =
           pre' @ ''// '' @ var @ '' auto-freed (VLA)'' @ free_pass post'"
proof
  have "fst (sub_scan calloc_rx replace_calloc 0 None post st) = calloc_pass post" for st
    unfolding calloc_pass_def re_sub_st_def
    by (rule sub_scan_text_state) (simp add: text_replace_calloc)
  then show "calloc_pass (pre @ calloc_text var size_expr @ post) =
      pre @ ''float '' @ var @ ''['' @ simplify_expression size_expr @ ''];'' @ calloc_pass post"
    by (simp add: calloc_pass_def[of "pre @ _"] re_sub_st_def calloc_scan[OF assms(1-4)]
        split_beta Let_def)
  have "fst (sub_scan free_rx replace_free 0 None post' st) = free_pass post'" for st
    unfolding free_pass_def re_sub_st_def
    by (rule sub_scan_text_state) (simp add: text_replace_free)
  then show "free_pass (pre' @ free_text var @ post') =
      pre' @ ''// '' @ var @ '' auto-freed (VLA)'' @ free_pass post'"
    by (simp add: free_pass_def[of "pre' @ _"] re_sub_st_def free_scan[OF assms(1,5)]
        split_beta Let_def)
qed

text \<open>
  Claim C9 (as amended). The warnings of a run are, buffer after buffer, those of each
  rewritten allocation, and a rewritten allocation has its warning if and only if its
  simplified size expression has more than one opening parenthesis.
\<close>

theorem complex_size_warning:
  assumes "plain_word var" and "size_expr \<noteq> []" and "CHR '','' \<notin> set size_expr"
    and "no_match_before calloc_rx (length pre) (pre @ calloc_text var size_expr @ post)"
  shows "warnings (snd (transform_calloc_to_vla (pre @ calloc_text var size_expr @ post))) =
           size_warning var size_expr @ warnings (snd (transform_calloc_to_vla post))"
proof -
  have init: "warnings initial_stats = []" by (simp add: initial_stats_def)
  show ?thesis
    unfolding transform_warnings re_sub_st_def
    by (simp add: calloc_scan[OF assms] split_beta Let_def init
        warnings_accumulate[of calloc_rx 0 None post "snd (replace_calloc _ _)"]
        warnings_replace_calloc group_def)
qed

text \<open>
  Claim C5 as stated fails: a deallocation of a rewritten buffer that is not written
  exactly as \<^verbatim>\<open>free(name);\<close> stays in the output as code.
\<close>

theorem free_call_survives:
  "fst (transform_calloc_to_vla ''float *a = calloc(4, sizeof(float)); free( a );'') =
     ''float a[4]; free( a );''"
  by code_simp

text \<open>The amended claim C5 on two small texts.\<close>

theorem calloc_and_free_replaced_witness:
  "calloc_pass ''int n; float *a = calloc((N - (0)), sizeof(float)); x = 1;'' =
     ''int n; float a[N]; x = 1;'' \<and>
   free_pass ''y; free(a); z;'' = ''y; // a auto-freed (VLA) z;''"
proof -
  have h: "plain_word ''a''" "''(N - (0))'' \<noteq> []" "CHR '','' \<notin> set ''(N - (0))''"
    "no_match_before calloc_rx (length ''int n; '')
       (''int n; '' @ calloc_text ''a'' ''(N - (0))'' @ '' x = 1;'')"
    "no_match_before free_rx (length ''y; '') (''y; '' @ free_text ''a'' @ '' z;'')"
    by code_simp+
  have e: "simplify_expression ''(N - (0))'' = ''N''" "calloc_pass '' x = 1;'' = '' x = 1;''"
    "free_pass '' z;'' = '' z;''"
    by code_simp+
  from calloc_and_free_replaced[OF h] show ?thesis
    by (simp add: e calloc_text_def free_text_def)
qed

text \<open>
  Claim C9 as stated fails: the size expression \<^verbatim>\<open>(n+1) * (m+1)\<close> survives simplification
  with one level of parentheses, and the warning is recorded.
\<close>

theorem warning_without_nesting:
  "warnings (snd (transform_calloc_to_vla ''float *a = calloc((n+1) * (m+1), sizeof(float));'')) =
     [''Complex size expression for a: (n+1) * (m+1)''] \<and>
   paren_nesting (simplify_expression ''(n+1) * (m+1)'') = 1"
  by code_simp

text \<open>The amended claim C9 on a text with one allocation.\<close>

theorem complex_size_warning_witness:
  "warnings (snd (transform_calloc_to_vla
     ''int n; float *a = calloc(((n+1)*(m+1)), sizeof(float)); x = 1;'')) =
     [''Complex size expression for a: ((n+1)*(m+1))'']"
proof -
  have h: "plain_word ''a''" "''((n+1)*(m+1))'' \<noteq> []" "CHR '','' \<notin> set ''((n+1)*(m+1))''"
    "no_match_before calloc_rx (length ''int n; '')
       (''int n; '' @ calloc_text ''a'' ''((n+1)*(m+1))'' @ '' x = 1;'')"
    by code_simp+
  have e: "size_warning ''a'' ''((n+1)*(m+1))'' =
      [''Complex size expression for a: ((n+1)*(m+1))'']"
    "warnings (snd (transform_calloc_to_vla '' x = 1;'')) = []"
    by code_simp+
  from complex_size_warning[OF h] show ?thesis
    by (simp add: e calloc_text_def)
qed


section \<open>Properties of the wrapper generator\<close>

subsection \<open>ConstantFolder\<close>

text \<open>
  Within the fragment of \<open>py_eval\<close>, folding returns a text: an evaluation that raises
  leaves the matched text as it is.
\<close>

lemma substitute_params_never_raises: "substitute_params ps code \<noteq> Raises x"
  by (induction ps code rule: substitute_params.induct) auto

lemma fold_code_never_raises: "fold_code param_values code \<noteq> Raises x"
  using substitute_params_never_raises[of param_values code]
  by (auto simp: fold_code_def split_beta Let_def split: outcome.splits)

lemma fold_array_size_raising:
  "py_eval (group m 1) = Raises x \<Longrightarrow> fold_array_size m u = (group m 0, u)"
  by (simp add: fold_array_size_def)

lemma fold_in_comparison_raising:
  "py_eval (group m 2) = Raises x \<Longrightarrow> fold_in_comparison m u = (group m 0, u)"
  by (simp add: fold_in_comparison_def)

text \<open>
  Claim C1, at the failing input \<^verbatim>\<open>a[7 % 4]\<close> with no bindings. The operator \<^verbatim>\<open>%\<close> is not
  among \<^verbatim>\<open>+ - * / ( )\<close>, yet both entry points of the folder evaluate the text: the
  bracket becomes \<^verbatim>\<open>[3]\<close>.
\<close>

theorem fold_code_evaluates_modulo:
  "fold_code [] ''a[7 % 4]'' = Returns ''a[3]'' \<and> fold_expression [] ''7 % 4'' = Returns ''3''"
  by code_simp

text \<open>
  Claim C3, at the failing input \<^verbatim>\<open>float a[N/2];\<close> with \<open>N\<close> bound to 6. The expression is
  fully literal after substitution and the division has no remainder, but the bracket
  becomes \<^verbatim>\<open>[3.0]\<close>, not the integer literal \<^verbatim>\<open>[3]\<close>.
\<close>

theorem fold_code_exact_division_gives_float:
  "fold_code [(''N'', 6)] ''float a[N/2];'' = Returns ''float a[3.0];''"
  by code_simp

text \<open>
  Claim C4, at the failing inputs \<^verbatim>\<open>float a[7/2];\<close> and \<^verbatim>\<open>i < 7/2\<close> with no bindings. The
  division produces a non-integer; the text is not left as it is but replaced by \<^verbatim>\<open>3.5\<close>.
\<close>

theorem fold_code_inexact_division_is_folded:
  "fold_code [] ''float a[7/2];'' = Returns ''float a[3.5];'' \<and>
   fold_code [] ''i < 7/2'' = Returns ''i < 3.5''"
  by code_simp


subsection \<open>ArrayLoader\<close>

text \<open>The number of leaves of the nested structure: everything that is not a list.\<close>

lemma flatten_leaf: "\<forall>items. v \<noteq> JList items \<Longrightarrow> flatten v = [v]"
  by (cases v) auto

lemma flatten_no_lists: "x \<in> set (flatten v) \<Longrightarrow> \<forall>items. x \<noteq> JList items"
  by (induction v arbitrary: x rule: flatten.induct) auto

lemma float_all_length: "float_all to_float vs = Inr xs \<Longrightarrow> length xs = length vs"
  by (induction vs arbitrary: xs) (auto split: sum.splits)

lemma load_json_array_length:
  "load_json_array to_float data = Inr xs \<Longrightarrow> length xs = length (flatten data)"
  by (auto simp: load_json_array_def Let_def float_all_length split: if_splits)

lemma load_json_array_rejects:
  "x \<in> set (flatten data) \<Longrightarrow> \<not> isinstance_int_float x \<Longrightarrow>
   load_json_array to_float data = Inl ValueError"
  by (auto simp: load_json_array_def Let_def list_all_iff)

text \<open>
  Claim C6, at the failing input \<^verbatim>\<open>[true]\<close>. The leaf is a JSON boolean, not a number, but
  \<^verbatim>\<open>isinstance(True, (int, float))\<close> holds and the loader does not fail with its
  \<^verbatim>\<open>ValueError\<close>: it returns the one-element array holding \<^verbatim>\<open>float(True)\<close>, that is 1.0.
\<close>

theorem load_json_array_accepts_boolean:
  "load_json_array to_float (JList [JBool True]) =
     (case to_float 1 of None \<Rightarrow> Inl OverflowError | Some x \<Rightarrow> Inr [x])"
  by (simp add: load_json_array_def split: option.splits)

subsection \<open>main\<close>





subsection \<open>read\_function\_body\<close>

lemma brace_depth_Cons:
  "brace_depth (x # xs) =
     (if x = CHR ''{'' then 1 else if x = CHR ''}'' then - 1 else 0) + brace_depth xs"
  by (simp add: brace_depth_def)

lemma scan_braces_matching:
  assumes "drop pos content = body @ CHR ''}'' # rest"
    and "c + brace_depth body = 1"
    and "\<forall>k\<le>length body. 1 \<le> c + brace_depth (take k body)"
  shows "scan_braces content pos c = pos + length body + 1"
  using assms
proof (induction body arbitrary: pos c)
  case Nil
  then have c: "c = 1" by (simp add: brace_depth_def)
  from Nil.prems(1) have lt: "pos < length content"
    by (metis drop_eq_Nil list.distinct(1) not_le append_Nil)
  from Nil.prems(1) lt have here: "content ! pos = CHR ''}''"
    by (metis append_Nil hd_drop_conv_nth list.sel(1))
  show ?case
    by (subst scan_braces.simps, simp add: lt here c) (subst scan_braces.simps, simp)
next
  case (Cons x xs)
  from Cons.prems(1) have lt: "pos < length content"
    by (metis drop_eq_Nil list.distinct(1) not_le append_Cons)
  from Cons.prems(1) lt have here: "content ! pos = x"
    by (metis append_Cons hd_drop_conv_nth list.sel(1))
  from Cons.prems(3)[rule_format, of 0] have cpos: "0 < c" by (simp add: brace_depth_def)
  define c' where "c' = c + (if x = CHR ''{'' then 1 else if x = CHR ''}'' then - 1 else 0)"
  have next_text: "drop (pos + 1) content = xs @ CHR ''}'' # rest"
    using Cons.prems(1) by (metis Suc_eq_plus1 append_Cons drop_Suc list.sel(3) tl_drop)
  have total: "c' + brace_depth xs = 1"
    using Cons.prems(2) by (simp add: c'_def brace_depth_Cons)
  have prefixes: "\<forall>k\<le>length xs. 1 \<le> c' + brace_depth (take k xs)"
  proof (intro allI impI)
    fix k assume "k \<le> length xs"
    then have "Suc k \<le> length (x # xs)" by simp
    from Cons.prems(3)[rule_format, OF this] show "1 \<le> c' + brace_depth (take k xs)"
      by (simp add: c'_def brace_depth_Cons)
  qed
  have "scan_braces content pos c = scan_braces content (pos + 1) c'"
    by (subst scan_braces.simps) (simp add: lt here cpos c'_def)
  also have "\<dots> = pos + 1 + length xs + 1"
    by (rule Cons.IH[OF next_text total prefixes])
  finally show ?case by simp
qed

lemma scan_braces_balanced:
  assumes "drop pos content = body @ CHR ''}'' # rest" and "balanced body"
  shows "scan_braces content pos 1 = pos + length body + 1"
proof (rule scan_braces_matching[OF assms(1)])
  show "1 + brace_depth body = 1" using assms(2) by (simp add: balanced_def)
  show "\<forall>k\<le>length body. 1 \<le> 1 + brace_depth (take k body)"
    using assms(2) by (auto simp: balanced_def list_all_iff)
qed

text \<open>
  Claim C8 (as amended). When the opening pattern occurs nowhere in the source, nothing is
  returned. When it occurs and the text after its \<^verbatim>\<open>{\<close> is a balanced body followed by
  the matching \<^verbatim>\<open>}\<close>, the result is that body with leading and trailing whitespace
  removed.
\<close>

theorem read_function_body_balanced:
  assumes "plain_word (sig_name func_sig)"
  shows "(re_search (header_rx (sig_name func_sig)) content = None \<longrightarrow>
            read_function_body func_sig (Some content) = Returns None) \<and>
         (\<forall>i j m body rest.
            re_search (header_rx (sig_name func_sig)) content = Some (i, j, m) \<longrightarrow>
            drop j content = body @ CHR ''}'' # rest \<longrightarrow> balanced body \<longrightarrow>
            read_function_body func_sig (Some content) = Returns (Some (strip body)))"
proof (intro conjI allI impI)
  assume "re_search (header_rx (sig_name func_sig)) content = None"
  with assms show "read_function_body func_sig (Some content) = Returns None"
    by (simp add: read_function_body_def)
next
  fix i j m body rest
  assume found: "re_search (header_rx (sig_name func_sig)) content = Some (i, j, m)"
    and suffix_text: "drop j content = body @ CHR ''}'' # rest"
    and bal: "balanced body"
  have "slice content j (scan_braces content j 1 - 1) = body"
    by (simp add: slice_def scan_braces_balanced[OF suffix_text bal] suffix_text)
  with assms found show "read_function_body func_sig (Some content) = Returns (Some (strip body))"
    by (simp add: read_function_body_def Let_def)
qed

text \<open>
  Claim C8 as stated fails: the text strictly between the braces of
  \<^verbatim>\<open>void f(int n) { x; }\<close> is \<^verbatim>\<open> x; \<close> with its two spaces, and the result is \<^verbatim>\<open>x;\<close>.
\<close>

theorem read_function_body_strips:
  "read_function_body f_sig (Some (''void f(int n) {'' @ '' x; '' @ ''}'')) \<noteq> Returns (Some '' x; '')"
  by code_simp

text \<open>
  The amended claim C8 on a source without the function and on one with nested braces.
\<close>

theorem read_function_body_balanced_witness:
  "read_function_body f_sig (Some ''int g;'') = Returns None \<and>
   read_function_body f_sig (Some ''void f(int n) { if (n) { x; } y; } z'') =
     Returns (Some ''if (n) { x; } y;'')"
proof -
  have pw: "plain_word (sig_name f_sig)" by code_simp
  have absent: "re_search (header_rx (sig_name f_sig)) ''int g;'' = None" by code_simp
  have found: "re_search (header_rx (sig_name f_sig)) ''void f(int n) { if (n) { x; } y; } z'' =
      Some (0, 15, (''void f(int n) {'', []))" by code_simp
  have suffix_text: "drop 15 ''void f(int n) { if (n) { x; } y; } z'' =
      '' if (n) { x; } y; '' @ CHR ''}'' # '' z''" by simp
  have bal: "balanced '' if (n) { x; } y; ''" by code_simp
  have st: "strip '' if (n) { x; } y; '' = ''if (n) { x; } y;''" by code_simp
  from read_function_body_balanced[OF pw, of "''int g;''"] absent
  have 1: "read_function_body f_sig (Some ''int g;'') = Returns None" by blast
  from read_function_body_balanced[OF pw, of "''void f(int n) { if (n) { x; } y; } z''"]
    found suffix_text bal
  have "read_function_body f_sig (Some ''void f(int n) { if (n) { x; } y; } z'') =
     Returns (Some (strip '' if (n) { x; } y; ''))" by blast
  with 1 st show ?thesis by simp
qed


subsection \<open>generate\<close>





end
